theory Spec2Isabelle
  imports Complex_Main "HOL-Library.Word"
begin

section \<open>JavaScript values read by the search page\<close>

text \<open>
  A JavaScript string is a sequence of UTF-16 code units. Every character that
  \<open>String.prototype.trim\<close> removes lies in the basic plane, so trimming is exact on
  code units.
\<close>

type_synonym jsstring = "16 word list"

definition str :: "string \<Rightarrow> jsstring" where
  "str s = map of_char s"

text \<open>
  Values are what \<open>JSON.parse\<close> or the absence of a property can yield; the page does no
  arithmetic, so a number is kept as the rational it denotes. JSON text has neither
  \<open>NaN\<close> nor an infinity, and a literal beyond the range of a double is left out.
\<close>

datatype jsval =
    JUndefined
  | JNull
  | JBool bool
  | JNum rat
  | JStr jsstring
  | JArr "jsval list"
  | JObj "(jsstring \<times> jsval) list"

fun truthy :: "jsval \<Rightarrow> bool" where
  "truthy JUndefined = False"
| "truthy JNull = False"
| "truthy (JBool b) = b"
| "truthy (JNum n) = (n \<noteq> 0)"
| "truthy (JStr s) = (s \<noteq> [])"
| "truthy (JArr _) = True"
| "truthy (JObj _) = True"

fun nullish :: "jsval \<Rightarrow> bool" where
  "nullish JUndefined = True"
| "nullish JNull = True"
| "nullish _ = False"

text \<open>What is thrown inside \<open>handleSearch\<close> or while the page renders:
  \<open>axios.isAxiosError\<close> holds of the first constructor only, whose argument is
  \<open>err.response\<close> (\<open>undefined\<close> when no response came back); \<open>InvalidChild\<close> is React's
  error for an object given as a child.\<close>

datatype exn = AxiosError jsval | TypeError | InvalidChild | Thrown jsval

fun isAxiosError :: "exn \<Rightarrow> bool" where
  "isAxiosError (AxiosError _) = True"
| "isAxiosError _ = False"

fun response :: "exn \<Rightarrow> jsval" where
  "response (AxiosError r) = r"
| "response _ = JUndefined"

text \<open>
  \<open>field v k\<close> is \<open>v.k\<close> on a value that is neither \<open>null\<close> nor \<open>undefined\<close>, for the
  property names the page reads (\<open>data\<close>, \<open>answer\<close>, \<open>total_score\<close>, \<open>detail\<close>), none of
  which a primitive or an array inherits. \<open>getProp\<close> is the plain member access, which
  throws on \<open>null\<close> and \<open>undefined\<close>; \<open>optProp\<close> is \<open>v?.k\<close>.
\<close>

fun field :: "jsval \<Rightarrow> jsstring \<Rightarrow> jsval" where
  "field (JObj kvs) k = (case map_of kvs k of None \<Rightarrow> JUndefined | Some v \<Rightarrow> v)"
| "field _ k = JUndefined"

definition getProp :: "jsval \<Rightarrow> jsstring \<Rightarrow> exn + jsval" where
  "getProp v k = (if nullish v then Inl TypeError else Inr (field v k))"

definition optProp :: "jsval \<Rightarrow> jsstring \<Rightarrow> jsval" where
  "optProp v k = (if nullish v then JUndefined else field v k)"

definition js_or :: "jsval \<Rightarrow> jsval \<Rightarrow> jsval" where
  "js_or a b = (if truthy a then a else b)"

subsection \<open>\<open>String.prototype.trim\<close>\<close>

text \<open>White space and line terminators of ECMAScript.\<close>

definition is_ws :: "16 word \<Rightarrow> bool" where
  "is_ws c \<longleftrightarrow>
     c = 0x9 \<or> c = 0xA \<or> c = 0xB \<or> c = 0xC \<or> c = 0xD \<or> c = 0x20 \<or> c = 0xA0
     \<or> c = 0x1680 \<or> (0x2000 \<le> c \<and> c \<le> 0x200A) \<or> c = 0x2028 \<or> c = 0x2029
     \<or> c = 0x202F \<or> c = 0x205F \<or> c = 0x3000 \<or> c = 0xFEFF"

definition trim :: "jsstring \<Rightarrow> jsstring" where
  "trim s = rev (dropWhile is_ws (rev (dropWhile is_ws s)))"

section \<open>The page component \<open>Home\<close>\<close>

text \<open>The five \<open>useState\<close> cells, with their initial values.\<close>

record page_state =
  query :: jsstring
  answer :: jsval
  totalScore :: jsval
  loading :: bool
  error :: jsval

definition initial_state :: page_state where
  "initial_state =
     \<lparr>query = [], answer = JNull, totalScore = JNull, loading = False, error = JNull\<rparr>"

text \<open>What \<open>handleSearch\<close> does to the outside, in program order.\<close>

datatype effect =
    PreventDefault
  | SetLoading bool
  | SetError jsval
  | SetAnswer jsval
  | SetTotalScore jsval
  | Post jsstring jsval

fun is_Post :: "effect \<Rightarrow> bool" where
  "is_Post (Post _ _) = True"
| "is_Post _ = False"

text \<open>
  How the promise of \<open>axios.post\<close> settles: it resolves with the response object on a
  status the library accepts (2xx), rejects with what it throws otherwise, or stays
  pending (no timeout is configured).
\<close>

datatype outcome = Resolved jsval | Rejected exn | NeverSettles

definition query_url :: jsstring where
  "query_url = str ''http://localhost:8000/query''"

definition msg_search_error :: jsval where
  "msg_search_error = JStr (str ''An error occurred while searching'')"

definition msg_unexpected :: jsval where
  "msg_unexpected = JStr (str ''An unexpected error occurred'')"

text \<open>The two statements of the \<open>try\<close> block after the \<open>await\<close>: the effects done and
  the exception that cut them short, if any.\<close>

definition try_body :: "jsval \<Rightarrow> effect list \<times> exn option" where
  "try_body resp =
     (case getProp resp (str ''data'') of
        Inl e \<Rightarrow> ([], Some e)
      | Inr d \<Rightarrow>
          (case getProp d (str ''answer'') of
             Inl e \<Rightarrow> ([], Some e)
           | Inr a \<Rightarrow>
               (case getProp resp (str ''data'') of
                  Inl e \<Rightarrow> ([SetAnswer a], Some e)
                | Inr d' \<Rightarrow>
                    (case getProp d' (str ''total_score'') of
                       Inl e \<Rightarrow> ([SetAnswer a], Some e)
                     | Inr t \<Rightarrow> ([SetAnswer a, SetTotalScore t], None)))))"

definition catch_block :: "exn \<Rightarrow> effect list" where
  "catch_block err =
     (if isAxiosError err
      then [SetError (js_or (optProp (optProp (response err) (str ''data'')) (str ''detail''))
                            msg_search_error)]
      else [SetError msg_unexpected])"

text \<open>What runs once the awaited promise has settled: the rest of the \<open>try\<close> block or the
  \<open>catch\<close> block, and then the \<open>finally\<close> block. A promise that stays pending resumes
  nothing.\<close>

definition after_await :: "outcome \<Rightarrow> effect list" where
  "after_await out =
     (case out of
        NeverSettles \<Rightarrow> []
      | Rejected err \<Rightarrow> catch_block err @ [SetLoading False]
      | Resolved resp \<Rightarrow>
          (case try_body resp of
             (effs, None) \<Rightarrow> effs @ [SetLoading False]
           | (effs, Some err) \<Rightarrow> effs @ catch_block err @ [SetLoading False]))"

text \<open>The handler, given how \<open>axios.post\<close> answers a request (URL and body).\<close>

definition handleSearch :: "(jsstring \<Rightarrow> jsval \<Rightarrow> outcome) \<Rightarrow> page_state \<Rightarrow> effect list" where
  "handleSearch post s =
     PreventDefault #
     (if \<not> truthy (JStr (trim (query s))) then []
      else
        [SetLoading True, SetError JNull, SetAnswer JNull, SetTotalScore JNull] @
        (let body = JObj [(str ''query'', JStr (trim (query s)))] in
           Post query_url body # after_await (post query_url body)))"

fun apply_effect :: "page_state \<Rightarrow> effect \<Rightarrow> page_state" where
  "apply_effect s PreventDefault = s"
| "apply_effect s (SetLoading b) = s\<lparr>loading := b\<rparr>"
| "apply_effect s (SetError v) = s\<lparr>error := v\<rparr>"
| "apply_effect s (SetAnswer v) = s\<lparr>answer := v\<rparr>"
| "apply_effect s (SetTotalScore v) = s\<lparr>totalScore := v\<rparr>"
| "apply_effect s (Post _ _) = s"

definition run :: "page_state \<Rightarrow> effect list \<Rightarrow> page_state" where
  "run s effs = foldl apply_effect s effs"

text \<open>The \<open>onChange\<close> handler of the input field.\<close>

definition onChange :: "page_state \<Rightarrow> jsstring \<Rightarrow> page_state" where
  "onChange s v = s\<lparr>query := v\<rparr>"

subsection \<open>What \<open>Home\<close> renders\<close>

text \<open>
  What React puts into the document for a value given as a child (\<open>{v}\<close>): nothing for
  \<open>undefined\<close>, \<open>null\<close>, a boolean and the empty string, a text node for another string
  and for a number, the children of its elements for an array; an object is refused
  with an error. The text of a number is that of \<open>Number::toString\<close>, which
  \<open>NumberNode\<close> stands for without spelling out its digits.
\<close>

datatype child = TextNode jsstring | NumberNode rat

fun react_child :: "jsval \<Rightarrow> exn + child list"
  and react_children :: "jsval list \<Rightarrow> exn + child list" where
  "react_child JUndefined = Inr []"
| "react_child JNull = Inr []"
| "react_child (JBool b) = Inr []"
| "react_child (JNum n) = Inr [NumberNode n]"
| "react_child (JStr s) = Inr (if s = [] then [] else [TextNode s])"
| "react_child (JArr vs) = react_children vs"
| "react_child (JObj kvs) = Inl InvalidChild"
| "react_children [] = Inr []"
| "react_children (v # vs) =
     (case react_child v of
        Inl e \<Rightarrow> Inl e
      | Inr cs \<Rightarrow> (case react_children vs of Inl e \<Rightarrow> Inl e | Inr ds \<Rightarrow> Inr (cs @ ds)))"

text \<open>
  \<open>Number.prototype.toFixed\<close> with one fraction digit, on the rational a number denotes:
  the integer \<open>n\<close> nearest to ten times the magnitude (the larger one on a tie), written
  in decimal with a point before its last digit and a minus sign before a negative
  number. From \<open>10\<^sup>2\<^sup>1\<close> on the result is that of \<open>Number::toString\<close>. A receiver that is
  not a number has no such method, and the call throws.
\<close>

definition digit :: "nat \<Rightarrow> 16 word" where
  "digit d = 0x30 + of_nat d"

function digits :: "nat \<Rightarrow> jsstring" where
  "digits n = (if n < 10 then [digit n] else digits (n div 10) @ [digit (n mod 10)])"
  by pat_completeness auto
termination
  by (relation "measure id") auto

declare digits.simps [simp del]

definition fixed_text :: "rat \<Rightarrow> jsstring" where
  "fixed_text x =
     (let n = nat \<lfloor>\<bar>x\<bar> * 10 + 1 / 2\<rfloor>
      in (if x < 0 then [0x2D] else []) @ digits (n div 10) @ [0x2E] @ [digit (n mod 10)])"

definition toFixed :: "jsval \<Rightarrow> exn + child" where
  "toFixed v =
     (case v of
        JNum x \<Rightarrow> Inr (if \<bar>x\<bar> \<ge> 10 ^ 21 then NumberNode x else TextNode (fixed_text x))
      | _ \<Rightarrow> Inl TypeError)"

text \<open>
  The parts of the returned tree that depend on the state: the two \<open>disabled\<close>
  attributes, the button label, the children of the paragraph of the error block
  (\<open>error && ...\<close>), of the paragraph of the answer card (\<open>answer && ...\<close>) and of the
  score badge inside the answer block (\<open>totalScore !== null && ...\<close>), and \<open>stray\<close>, what a
  falsy \<open>error\<close> or \<open>answer\<close> itself leaves in the tree as the value of its \<open>&&\<close> (a text
  node for the number 0, nothing otherwise). \<open>totalScore.toFixed(1)\<close> runs, and may
  throw, while \<open>Home\<close> builds the tree; React then renders the children in order, the
  error block before the answer block.
\<close>

record view =
  input_disabled :: bool
  button_disabled :: bool
  button_label :: jsstring
  error_message :: "child list option"
  answer_card :: "child list option"
  score_badge :: "child list option"
  stray :: "child list"

definition render :: "page_state \<Rightarrow> exn + view" where
  "render s =
     (case (if truthy (answer s) \<and> totalScore s \<noteq> JNull
            then (case toFixed (totalScore s) of Inl e \<Rightarrow> Inl e | Inr c \<Rightarrow> Inr (Some c))
            else Inr None) of
        Inl e \<Rightarrow> Inl e
      | Inr fixed \<Rightarrow>
          (case react_child (error s) of
             Inl e \<Rightarrow> Inl e
           | Inr ecs \<Rightarrow>
               (case react_child (answer s) of
                  Inl e \<Rightarrow> Inl e
                | Inr acs \<Rightarrow>
                    Inr \<lparr>input_disabled = loading s,
                         button_disabled = (loading s \<or> \<not> truthy (JStr (trim (query s)))),
                         button_label = (if loading s then str ''Searching...'' else str ''Search''),
                         error_message =
                           (if truthy (error s) then Some (TextNode [0x274C, 0x20] # ecs) else None),
                         answer_card = (if truthy (answer s) then Some acs else None),
                         score_badge =
                           (case fixed of
                              None \<Rightarrow> None
                            | Some c \<Rightarrow> Some [TextNode (str ''Confidence: ''), c, TextNode (str ''%'')]),
                         stray = (if truthy (error s) then [] else ecs)
                                 @ (if truthy (answer s) then [] else acs)\<rparr>)))"

subsection \<open>Concrete inputs\<close>

text \<open>A network that settles every request the same way, and a state whose query is the
  word \<open>drain\<close> between a space and a tab, and one whose query is blank.\<close>

definition always :: "outcome \<Rightarrow> jsstring \<Rightarrow> jsval \<Rightarrow> outcome" where
  "always out url body = out"

definition typed_state :: page_state where
  "typed_state = initial_state\<lparr>query := [0x20] @ str ''drain'' @ [0x9]\<rparr>"

definition blank_state :: page_state where
  "blank_state = initial_state\<lparr>query := [0x20, 0x9, 0xA0]\<rparr>"

definition ok_response :: "jsval \<Rightarrow> jsval \<Rightarrow> jsval" where
  "ok_response a t =
     JObj [(str ''data'', JObj [(str ''answer'', a), (str ''total_score'', t)]),
           (str ''status'', JNum 200)]"

definition error_response :: "jsval \<Rightarrow> jsval" where
  "error_response d =
     JObj [(str ''data'', JObj [(str ''detail'', d)]), (str ''status'', JNum 500)]"

section \<open>The query orchestrator\<close>

text \<open>
  The page's only collaborator is the backend that answers \<open>POST /query\<close>. Its source
  file (\<open>backend/main.py\<close>) is not among the sources, so the definitions of this section
  follow the specification's component design.
\<close>

text \<open>Modelled from the spec: the error taxonomy of the orchestrator, missing with
  \<open>backend/main.py\<close>. \<open>DivisionByZero\<close> is not a member of that taxonomy: it is what an
  unchecked division by an empty result set's length would raise.\<close>

datatype handle_error =
    InvalidInputError
  | UpstreamEmbeddingError
  | UpstreamSearchError
  | UpstreamGenerationError
  | DivisionByZero

text \<open>Modelled from the spec: a retrieved record, \<open>{score, text, source, chunk_index}\<close>,
  missing with \<open>backend/main.py\<close>. Scores are taken as exact rationals.\<close>

record SearchMatch =
  score :: rat
  chunk_text :: jsstring
  source :: jsstring
  chunk_index :: int

text \<open>Modelled from the spec: the orchestrator's output, \<open>{answer, total_score}\<close>,
  missing with \<open>backend/main.py\<close>.\<close>

record AnswerResult =
  answer_text :: jsstring
  total_score :: rat

text \<open>Modelled from the spec: the recognised configuration options the orchestrator
  reads (missing with \<open>backend/main.py\<close>), and the prompt layout, which the
  specification leaves open.\<close>

record config =
  top_k :: nat
  score_threshold_percent :: rat
  delimiter :: jsstring
  build_prompt :: "jsstring \<Rightarrow> jsstring \<Rightarrow> jsstring"

text \<open>Modelled from the spec: the three external services as injected clients (missing
  with \<open>backend/main.py\<close>); \<open>None\<close> is a failed call.\<close>

record clients =
  embed :: "jsstring \<Rightarrow> rat list option"
  search :: "rat list \<Rightarrow> nat \<Rightarrow> SearchMatch list option"
  complete :: "jsstring \<Rightarrow> jsstring option"

text \<open>Modelled from the spec: the external calls of one request, in order, as a test's
  call-count assertion would see them (missing with \<open>backend/main.py\<close>).\<close>

datatype call = Embed jsstring | Search "rat list" nat | Complete jsstring

text \<open>Modelled from the spec: the fixed fallback answer, missing with
  \<open>backend/main.py\<close>.\<close>

definition FALLBACK_TEXT :: jsstring where
  "FALLBACK_TEXT = str ''I could not find enough information about this issue in the dataset.''"

text \<open>Modelled from the spec: the context assembler (missing with \<open>backend/main.py\<close>),
  which joins the texts in result order with the delimiter.\<close>

fun assemble :: "jsstring \<Rightarrow> SearchMatch list \<Rightarrow> jsstring" where
  "assemble d [] = []"
| "assemble d [m] = chunk_text m"
| "assemble d (m # ms) = chunk_text m @ d @ assemble d ms"

text \<open>Modelled from the spec: division as it runs, where a zero divisor is a failure and
  not a value (missing with \<open>backend/main.py\<close>).\<close>

definition divide_checked :: "rat \<Rightarrow> rat \<Rightarrow> rat option" where
  "divide_checked a b = (if b = 0 then None else Some (a / b))"

text \<open>Modelled from the spec: the arithmetic mean of the confidence gate, missing with
  \<open>backend/main.py\<close>.\<close>

definition mean :: "rat list \<Rightarrow> rat option" where
  "mean xs = divide_checked (sum_list xs) (of_nat (length xs))"

text \<open>Modelled from the spec: the confidence gate's \<open>score\<close> (missing with
  \<open>backend/main.py\<close>): the mean of the match scores times 100, with the empty set
  checked first.\<close>

definition score_matches :: "SearchMatch list \<Rightarrow> rat option" where
  "score_matches ms =
     (if ms = [] then Some 0 else map_option (\<lambda>m. m * 100) (mean (map score ms)))"

text \<open>Modelled from the spec: the confidence gate's \<open>passes\<close>, missing with
  \<open>backend/main.py\<close>.\<close>

definition passes :: "rat \<Rightarrow> rat \<Rightarrow> bool" where
  "passes sc threshold \<longleftrightarrow> sc \<ge> threshold"

text \<open>Modelled from the spec: the orchestrator's \<open>handle\<close> (missing with
  \<open>backend/main.py\<close>), steps 1 to 7 of its contract, returning the external calls it
  made and its result.\<close>

definition handle :: "config \<Rightarrow> clients \<Rightarrow> jsstring \<Rightarrow> call list \<times> (handle_error + AnswerResult)" where
  "handle cfg cl q =
     (let t = trim q in
      if t = [] then ([], Inl InvalidInputError)
      else
        (case embed cl t of
           None \<Rightarrow> ([Embed t], Inl UpstreamEmbeddingError)
         | Some v \<Rightarrow>
             (case search cl v (top_k cfg) of
                None \<Rightarrow> ([Embed t, Search v (top_k cfg)], Inl UpstreamSearchError)
              | Some ms \<Rightarrow>
                  if ms = []
                  then ([Embed t, Search v (top_k cfg)],
                        Inr \<lparr>answer_text = FALLBACK_TEXT, total_score = 0\<rparr>)
                  else
                    (case score_matches ms of
                       None \<Rightarrow> ([Embed t, Search v (top_k cfg)], Inl DivisionByZero)
                     | Some sc \<Rightarrow>
                         if sc < score_threshold_percent cfg
                         then ([Embed t, Search v (top_k cfg)],
                               Inr \<lparr>answer_text = FALLBACK_TEXT, total_score = sc\<rparr>)
                         else
                           (let prompt = build_prompt cfg (assemble (delimiter cfg) ms) q in
                            case complete cl prompt of
                              None \<Rightarrow> ([Embed t, Search v (top_k cfg), Complete prompt],
                                        Inl UpstreamGenerationError)
                            | Some a \<Rightarrow> ([Embed t, Search v (top_k cfg), Complete prompt],
                                          Inr \<lparr>answer_text = a, total_score = sc\<rparr>))))))"

text \<open>Modelled from the spec: the body of the \<open>200\<close> response of \<open>POST /query\<close>, missing
  with \<open>backend/main.py\<close>.\<close>

definition response_body :: "AnswerResult \<Rightarrow> jsval" where
  "response_body r =
     JObj [(str ''answer'', JStr (answer_text r)), (str ''total_score'', JNum (total_score r))]"

text \<open>Modelled from the spec: the default configuration (\<open>top_k\<close> 3, threshold 25.0, a
  blank line between texts), missing with \<open>backend/main.py\<close>.\<close>

definition default_config :: config where
  "default_config =
     \<lparr>top_k = 3, score_threshold_percent = 25, delimiter = [0xA, 0xA],
      build_prompt = (\<lambda>context q. context @ [0xA, 0xA] @ q)\<rparr>"

subsection \<open>Concrete services\<close>

text \<open>A match with a given score, and services that always succeed: the search returns
  the first \<open>k\<close> of a fixed list of matches.\<close>

definition match_scored :: "rat \<Rightarrow> SearchMatch" where
  "match_scored x = \<lparr>score = x, chunk_text = str ''Check the drain hose.'',
                     source = str ''manual.pdf'', chunk_index = 0\<rparr>"

definition stub_clients :: "SearchMatch list \<Rightarrow> clients" where
  "stub_clients ms =
     \<lparr>embed = (\<lambda>t. Some [0, 1]),
      search = (\<lambda>v k. Some (take k ms)),
      complete = (\<lambda>p. Some (str ''Clean the pump filter.''))\<rparr>"

section \<open>Trimming\<close>

lemma trim_Nil_iff: "trim q = [] \<longleftrightarrow> (\<forall>c\<in>set q. is_ws c)"
proof
  assume "trim q = []"
  then have "\<forall>c\<in>set (dropWhile is_ws q). is_ws c"
    by (simp add: trim_def)
  then have "dropWhile is_ws q = []"
    by (metis hd_dropWhile hd_in_set)
  then show "\<forall>c\<in>set q. is_ws c"
    by simp
next
  assume "\<forall>c\<in>set q. is_ws c"
  then show "trim q = []"
    by (auto simp: trim_def dest: set_dropWhileD)
qed

lemma trim_decomp:
  "\<exists>l r. q = l @ trim q @ r \<and> (\<forall>c\<in>set l. is_ws c) \<and> (\<forall>c\<in>set r. is_ws c)"
proof -
  let ?l = "takeWhile is_ws q"
  let ?m = "dropWhile is_ws q"
  let ?r = "rev (takeWhile is_ws (rev ?m))"
  have "rev ?m = takeWhile is_ws (rev ?m) @ dropWhile is_ws (rev ?m)"
    by simp
  then have "?m = rev (dropWhile is_ws (rev ?m)) @ ?r"
    by (metis rev_append rev_rev_ident)
  then have "q = ?l @ trim q @ ?r"
    by (metis takeWhile_dropWhile_id trim_def)
  moreover have "\<forall>c\<in>set ?l. is_ws c"
    by (auto dest: set_takeWhileD)
  moreover have "\<forall>c\<in>set ?r. is_ws c"
    by (auto dest: set_takeWhileD)
  ultimately show ?thesis by blast
qed

lemma trim_ends:
  assumes "trim q \<noteq> []"
  shows "\<not> is_ws (hd (trim q)) \<and> \<not> is_ws (last (trim q))"
proof -
  let ?m = "dropWhile is_ws q"
  let ?d = "dropWhile is_ws (rev ?m)"
  have d: "?d \<noteq> []" using assms by (simp add: trim_def)
  then have l: "\<not> is_ws (hd ?d)" by (metis hd_dropWhile)
  have "last (trim q) = hd ?d" using d by (simp add: trim_def last_rev)
  with l have A: "\<not> is_ws (last (trim q))" by simp
  have m: "?m \<noteq> []" using d by (metis dropWhile.simps(1) rev.simps(1))
  then have hm: "\<not> is_ws (hd ?m)" by (metis hd_dropWhile)
  have "last (rev ?m) = hd ?m" using m by (simp add: last_rev)
  moreover have "last ?d = last (rev ?m)"
    using d by (metis last_appendR takeWhile_dropWhile_id)
  moreover have "hd (trim q) = last ?d" using d by (simp add: trim_def hd_rev)
  ultimately show ?thesis using A hm by simp
qed

lemma trim_typed: "trim (query typed_state) = str ''drain''"
  by (simp add: typed_state_def initial_state_def trim_def is_ws_def str_def)

section \<open>The handler step by step\<close>

lemma try_body_ok:
  "\<not> nullish resp \<Longrightarrow> \<not> nullish (field resp (str ''data'')) \<Longrightarrow>
   try_body resp = ([SetAnswer (field (field resp (str ''data'')) (str ''answer'')),
                     SetTotalScore (field (field resp (str ''data'')) (str ''total_score''))], None)"
  by (simp add: try_body_def getProp_def)

lemma try_body_throws:
  "nullish resp \<or> nullish (field resp (str ''data'')) \<Longrightarrow> try_body resp = ([], Some TypeError)"
  by (auto simp: try_body_def getProp_def)

lemma try_body_cases:
  "try_body resp = ([], Some TypeError) \<or>
   try_body resp = ([SetAnswer (field (field resp (str ''data'')) (str ''answer'')),
                     SetTotalScore (field (field resp (str ''data'')) (str ''total_score''))], None)"
  using try_body_ok [of resp] try_body_throws [of resp] by blast

lemma handleSearch_nonblank:
  "trim (query s) \<noteq> [] \<Longrightarrow>
   handleSearch post s =
     [PreventDefault, SetLoading True, SetError JNull, SetAnswer JNull, SetTotalScore JNull,
      Post query_url (JObj [(str ''query'', JStr (trim (query s)))])]
     @ after_await (post query_url (JObj [(str ''query'', JStr (trim (query s)))]))"
  by (simp add: handleSearch_def Let_def)

lemma after_await_no_Post: "e \<in> set (after_await out) \<Longrightarrow> \<not> is_Post e"
  by (auto simp: after_await_def catch_block_def try_body_def getProp_def
      split: outcome.splits sum.splits if_splits option.splits prod.splits)

lemma after_await_Resolved_ok:
  "\<not> nullish resp \<Longrightarrow> \<not> nullish (field resp (str ''data'')) \<Longrightarrow>
   after_await (Resolved resp) =
     [SetAnswer (field (field resp (str ''data'')) (str ''answer'')),
      SetTotalScore (field (field resp (str ''data'')) (str ''total_score'')),
      SetLoading False]"
  by (simp add: after_await_def try_body_ok)

lemma after_await_Resolved_throws:
  "nullish resp \<or> nullish (field resp (str ''data'')) \<Longrightarrow>
   after_await (Resolved resp) = [SetError msg_unexpected, SetLoading False]"
  by (simp add: after_await_def try_body_throws catch_block_def)

lemma after_await_Rejected:
  "after_await (Rejected err) =
     [SetError (if isAxiosError err
                then js_or (optProp (optProp (response err) (str ''data'')) (str ''detail''))
                           msg_search_error
                else msg_unexpected),
      SetLoading False]"
  by (simp add: after_await_def catch_block_def)

lemma after_await_last:
  "out \<noteq> NeverSettles \<Longrightarrow> after_await out \<noteq> [] \<and> last (after_await out) = SetLoading False"
  by (auto simp: after_await_def split: outcome.splits prod.splits option.splits)

lemma run_Nil: "run s [] = s"
  by (simp add: run_def)

lemma run_Cons: "run s (e # es) = run (apply_effect s e) es"
  by (simp add: run_def)

lemma run_append: "run s (xs @ ys) = run (run s xs) ys"
  by (simp add: run_def)

lemma run_prefix:
  "run s [PreventDefault, SetLoading True, SetError JNull, SetAnswer JNull, SetTotalScore JNull]
   = \<lparr>query = query s, answer = JNull, totalScore = JNull, loading = True, error = JNull\<rparr>"
  by (cases s) (simp add: run_Nil run_Cons)

lemma run_handleSearch:
  "trim (query s) \<noteq> [] \<Longrightarrow>
   run s (handleSearch post s) =
   run \<lparr>query = query s, answer = JNull, totalScore = JNull, loading = True, error = JNull\<rparr>
       (after_await (post query_url (JObj [(str ''query'', JStr (trim (query s)))])))"
  by (cases s) (simp add: handleSearch_nonblank run_Nil run_Cons)

lemma run_after_await_loading:
  "out \<noteq> NeverSettles \<Longrightarrow> \<not> loading (run s (after_await out))"
  by (auto simp: after_await_def catch_block_def run_append run_Cons run_Nil
      split: outcome.splits prod.splits option.splits)

lemma render_loading:
  "loading s \<Longrightarrow> render s = Inr v \<Longrightarrow> input_disabled v \<and> button_disabled v"
  by (auto simp: render_def split: if_splits sum.splits option.splits)

lemma render_in_flight:
  "render \<lparr>query = q, answer = JNull, totalScore = JNull, loading = True, error = JNull\<rparr>
   = Inr \<lparr>input_disabled = True, button_disabled = True, button_label = str ''Searching...'',
          error_message = None, answer_card = None, score_badge = None, stray = []\<rparr>"
  by (simp add: render_def)

lemma render_exclusive:
  "error s = JNull \<or> answer s = JNull \<Longrightarrow> render s = Inr v \<Longrightarrow>
   error_message v = None \<or> answer_card v = None"
  by (auto simp: render_def split: if_splits sum.splits option.splits)

lemma render_settled_error:
  assumes "trim q \<noteq> []" and "truthy e"
  shows "render \<lparr>query = q, answer = JNull, totalScore = JNull, loading = False, error = e\<rparr>
         = (case react_child e of
              Inl x \<Rightarrow> Inl x
            | Inr cs \<Rightarrow>
                Inr \<lparr>input_disabled = False, button_disabled = False, button_label = str ''Search'',
                     error_message = Some (TextNode [0x274C, 0x20] # cs), answer_card = None,
                     score_badge = None, stray = []\<rparr>)"
  using assms by (simp add: render_def split: sum.splits)

lemma render_settled_answer:
  assumes "trim q \<noteq> []" and "a \<noteq> []"
  shows "render \<lparr>query = q, answer = JStr a, totalScore = JNum x, loading = False, error = JNull\<rparr>
         = Inr \<lparr>input_disabled = False, button_disabled = False, button_label = str ''Search'',
                error_message = None, answer_card = Some [TextNode a],
                score_badge = Some [TextNode (str ''Confidence: ''),
                                    (if \<bar>x\<bar> \<ge> 10 ^ 21 then NumberNode x else TextNode (fixed_text x)),
                                    TextNode (str ''%'')],
                stray = []\<rparr>"
  using assms by (simp add: render_def toFixed_def)

lemma digits_small: "n < 10 \<Longrightarrow> digits n = [digit n]"
  by (simp add: digits.simps)

lemma digits_big: "10 \<le> n \<Longrightarrow> digits n = digits (n div 10) @ [digit (n mod 10)]"
  by (subst digits.simps) simp

lemma floor_rat_numeral: "\<lfloor>numeral a / numeral b :: rat\<rfloor> = numeral a div numeral b"
  by (metis floor_divide_of_int_eq of_int_numeral)

lemma fixed_text_rounds:
  "\<exists>n. fixed_text x
          = (if x < 0 then [0x2D] else []) @ digits (n div 10) @ [0x2E] @ [digit (n mod 10)]
       \<and> \<bar>of_nat n / 10 - \<bar>x\<bar>\<bar> \<le> 1 / 20"
proof -
  let ?n = "nat \<lfloor>\<bar>x\<bar> * 10 + 1 / 2\<rfloor>"
  have "0 \<le> \<lfloor>\<bar>x\<bar> * 10 + 1 / 2\<rfloor>"
    by simp
  then have "(of_nat ?n :: rat) = of_int \<lfloor>\<bar>x\<bar> * 10 + 1 / 2\<rfloor>"
    by simp
  moreover have "of_int \<lfloor>\<bar>x\<bar> * 10 + 1 / 2\<rfloor> \<le> \<bar>x\<bar> * 10 + 1 / 2"
    by (rule of_int_floor_le)
  moreover have "\<bar>x\<bar> * 10 + 1 / 2 < of_int \<lfloor>\<bar>x\<bar> * 10 + 1 / 2\<rfloor> + 1"
    by linarith
  ultimately have "\<bar>of_nat ?n / 10 - \<bar>x\<bar>\<bar> \<le> 1 / 20"
    by linarith
  then show ?thesis
    unfolding fixed_text_def Let_def by blast
qed

lemma run_resolved_ok:
  assumes "trim (query s) \<noteq> []"
    and "post query_url (JObj [(str ''query'', JStr (trim (query s)))]) = Resolved resp"
    and "\<not> nullish resp" and "\<not> nullish (field resp (str ''data''))"
  shows "run s (handleSearch post s)
         = \<lparr>query = query s, answer = field (field resp (str ''data'')) (str ''answer''),
            totalScore = field (field resp (str ''data'')) (str ''total_score''),
            loading = False, error = JNull\<rparr>"
  using assms by (simp add: run_handleSearch after_await_Resolved_ok run_Nil run_Cons)

lemma run_rejected:
  assumes "trim (query s) \<noteq> []"
    and "post query_url (JObj [(str ''query'', JStr (trim (query s)))]) = Rejected err"
  shows "run s (handleSearch post s)
         = \<lparr>query = query s, answer = JNull, totalScore = JNull, loading = False,
            error = (if isAxiosError err
                     then js_or (optProp (optProp (response err) (str ''data'')) (str ''detail''))
                                msg_search_error
                     else msg_unexpected)\<rparr>"
  using assms by (simp add: run_handleSearch after_await_Rejected run_Nil run_Cons)

lemma truthy_settled_error:
  "truthy (if isAxiosError err
           then js_or (optProp (optProp (response err) (str ''data'')) (str ''detail''))
                      msg_search_error
           else msg_unexpected)"
  by (simp add: js_or_def msg_search_error_def msg_unexpected_def str_def)

section \<open>Blank queries\<close>

text \<open>
  C1. When the trimmed query is empty, that is, when the query is empty or consists of
  white space only, submitting the form makes no external call: \<open>handleSearch\<close> only prevents the default submission and returns, so no
  request is posted, the state stays as it was, and the page shows the submit button
  disabled for such an input.
\<close>

theorem blank_query_no_request:
  assumes "trim (query s) = []"
  shows "(\<forall>c\<in>set (query s). is_ws c)
       \<and> handleSearch post s = [PreventDefault]
       \<and> \<not> (\<exists>e\<in>set (handleSearch post s). is_Post e)
       \<and> run s (handleSearch post s) = s
       \<and> (\<forall>v. render s = Inr v \<longrightarrow> button_disabled v)"
proof -
  have w: "\<forall>c\<in>set (query s). is_ws c"
    using assms by (simp add: trim_Nil_iff)
  have h: "handleSearch post s = [PreventDefault]"
    by (simp add: handleSearch_def assms)
  have r: "\<forall>v. render s = Inr v \<longrightarrow> button_disabled v"
    by (auto simp: render_def assms split: if_splits sum.splits option.splits)
  show ?thesis
    using w h r by (simp add: run_def)
qed

theorem blank_query_no_request_witness:
  "trim (query blank_state) = []
   \<and> list_all is_ws (query blank_state)
   \<and> handleSearch (always (Resolved (ok_response (JStr (str ''unused'')) (JNum 50)))) blank_state
       = [PreventDefault]
   \<and> run blank_state
         (handleSearch (always (Resolved (ok_response (JStr (str ''unused'')) (JNum 50)))) blank_state)
       = blank_state"
proof -
  have h: "trim (query blank_state) = []"
    by (simp add: blank_state_def initial_state_def trim_def is_ws_def)
  show ?thesis
    using h blank_query_no_request
      [OF h, where post = "always (Resolved (ok_response (JStr (str ''unused'')) (JNum 50)))"]
    by (simp add: run_def list_all_iff)
qed

section \<open>The request and its answer\<close>

text \<open>
  C2. When the trimmed query is not empty, \<open>handleSearch\<close> posts exactly one request, to
  the \<open>/query\<close> URL with the body \<open>{"query": ...}\<close>. When the request resolves with a
  response whose body is not \<open>null\<close>, the state's answer and score are the body's \<open>answer\<close>
  and \<open>total_score\<close> properties as they came, and no error is set. When that answer is a
  string that is not empty and the score a number, the page shows the answer string as
  it is and the score as \<open>Confidence: \<close>, the score rounded to one fraction digit by
  \<open>toFixed(1)\<close>, and \<open>%\<close>: the digits shown are those of the nearest multiple of one
  tenth of the score's magnitude.
\<close>

theorem one_post_and_success:
  assumes "trim (query s) \<noteq> []"
  shows "filter is_Post (handleSearch post s)
           = [Post query_url (JObj [(str ''query'', JStr (trim (query s)))])]
       \<and> (\<forall>resp. post query_url (JObj [(str ''query'', JStr (trim (query s)))]) = Resolved resp
                 \<and> \<not> nullish resp \<and> \<not> nullish (field resp (str ''data''))
            \<longrightarrow> answer (run s (handleSearch post s))
                  = field (field resp (str ''data'')) (str ''answer'')
              \<and> totalScore (run s (handleSearch post s))
                  = field (field resp (str ''data'')) (str ''total_score'')
              \<and> error (run s (handleSearch post s)) = JNull)
       \<and> (\<forall>resp a x. post query_url (JObj [(str ''query'', JStr (trim (query s)))]) = Resolved resp
                 \<and> field (field resp (str ''data'')) (str ''answer'') = JStr a \<and> a \<noteq> []
                 \<and> field (field resp (str ''data'')) (str ''total_score'') = JNum x
            \<longrightarrow> render (run s (handleSearch post s))
                  = Inr \<lparr>input_disabled = False, button_disabled = False,
                         button_label = str ''Search'', error_message = None,
                         answer_card = Some [TextNode a],
                         score_badge =
                           Some [TextNode (str ''Confidence: ''),
                                 (if \<bar>x\<bar> \<ge> 10 ^ 21 then NumberNode x else TextNode (fixed_text x)),
                                 TextNode (str ''%'')],
                         stray = []\<rparr>)
       \<and> (\<forall>x. \<exists>n. fixed_text x
                    = (if x < 0 then [0x2D] else []) @ digits (n div 10) @ [0x2E] @ [digit (n mod 10)]
                  \<and> \<bar>of_nat n / 10 - \<bar>x\<bar>\<bar> \<le> 1 / 20)"
proof -
  let ?out = "post query_url (JObj [(str ''query'', JStr (trim (query s)))])"
  have "filter is_Post (after_await out) = []" for out
    using after_await_no_Post by (auto simp: filter_empty_conv)
  then have one: "filter is_Post (handleSearch post s)
           = [Post query_url (JObj [(str ''query'', JStr (trim (query s)))])]"
    using assms by (simp add: handleSearch_nonblank)
  have ok: "answer (run s (handleSearch post s)) = field (field resp (str ''data'')) (str ''answer'')
          \<and> totalScore (run s (handleSearch post s)) = field (field resp (str ''data'')) (str ''total_score'')
          \<and> error (run s (handleSearch post s)) = JNull"
    if "?out = Resolved resp" and "\<not> nullish resp" and "\<not> nullish (field resp (str ''data''))"
    for resp
    by (simp add: run_resolved_ok [where post = post, OF assms that])
  have shown: "render (run s (handleSearch post s))
                  = Inr \<lparr>input_disabled = False, button_disabled = False,
                         button_label = str ''Search'', error_message = None,
                         answer_card = Some [TextNode a],
                         score_badge =
                           Some [TextNode (str ''Confidence: ''),
                                 (if \<bar>x\<bar> \<ge> 10 ^ 21 then NumberNode x else TextNode (fixed_text x)),
                                 TextNode (str ''%'')],
                         stray = []\<rparr>"
    if r: "?out = Resolved resp"
      and a: "field (field resp (str ''data'')) (str ''answer'') = JStr a" "a \<noteq> []"
      and x: "field (field resp (str ''data'')) (str ''total_score'') = JNum x"
    for resp a x
  proof -
    have d: "\<not> nullish (field resp (str ''data''))"
      using a(1) by (cases "field resp (str ''data'')") auto
    then have n: "\<not> nullish resp"
      by (cases resp) auto
    show ?thesis
      unfolding run_resolved_ok [where post = post, OF assms r n d] a(1) x
      by (rule render_settled_answer [OF assms a(2)])
  qed
  show ?thesis
    using one ok shown fixed_text_rounds by blast
qed

theorem one_post_and_success_witness:
  "trim (query typed_state) \<noteq> []
   \<and> filter is_Post (handleSearch (always (Resolved (ok_response (JStr (str ''Clean the pump filter.'')) (JNum (533 / 10))))) typed_state)
       = [Post (str ''http://localhost:8000/query'') (JObj [(str ''query'', JStr (str ''drain''))])]
   \<and> answer (run typed_state (handleSearch (always (Resolved (ok_response (JStr (str ''Clean the pump filter.'')) (JNum (533 / 10))))) typed_state))
       = JStr (str ''Clean the pump filter.'')
   \<and> totalScore (run typed_state (handleSearch (always (Resolved (ok_response (JStr (str ''Clean the pump filter.'')) (JNum (533 / 10))))) typed_state))
       = JNum (533 / 10)
   \<and> render (run typed_state (handleSearch (always (Resolved (ok_response (JStr (str ''Clean the pump filter.'')) (JNum (533 / 10))))) typed_state))
       = Inr \<lparr>input_disabled = False, button_disabled = False, button_label = str ''Search'',
              error_message = None,
              answer_card = Some [TextNode (str ''Clean the pump filter.'')],
              score_badge = Some [TextNode (str ''Confidence: ''), TextNode (str ''53.3''),
                                  TextNode (str ''%'')],
              stray = []\<rparr>"
proof -
  have h: "trim (query typed_state) \<noteq> []"
    by (simp add: trim_typed str_def)
  have r: "always (Resolved (ok_response (JStr (str ''Clean the pump filter.'')) (JNum (533 / 10)))) query_url
             (JObj [(str ''query'', JStr (trim (query typed_state)))]) = Resolved (ok_response (JStr (str ''Clean the pump filter.'')) (JNum (533 / 10)))"
    by (simp add: always_def)
  have n: "\<not> nullish (ok_response (JStr (str ''Clean the pump filter.'')) (JNum (533 / 10)))" "\<not> nullish (field (ok_response (JStr (str ''Clean the pump filter.'')) (JNum (533 / 10))) (str ''data''))"
    by (simp_all add: ok_response_def)
  have fa: "field (field (ok_response (JStr (str ''Clean the pump filter.'')) (JNum (533 / 10))) (str ''data'')) (str ''answer'') = JStr (str ''Clean the pump filter.'')"
    and ft: "field (field (ok_response (JStr (str ''Clean the pump filter.'')) (JNum (533 / 10))) (str ''data'')) (str ''total_score'') = JNum (533 / 10)"
    by (simp_all add: ok_response_def str_def)
  have ne: "str ''Clean the pump filter.'' \<noteq> []"
    by (simp add: str_def)
  have f: "fixed_text (533 / 10) = str ''53.3''"
    by (simp add: fixed_text_def Let_def floor_rat_numeral digits_small digits_big digit_def str_def)
  note T = one_post_and_success [OF h, where post = "always (Resolved (ok_response (JStr (str ''Clean the pump filter.'')) (JNum (533 / 10))))"]
  from T have c1: "filter is_Post (handleSearch (always (Resolved (ok_response (JStr (str ''Clean the pump filter.'')) (JNum (533 / 10))))) typed_state)
      = [Post query_url (JObj [(str ''query'', JStr (trim (query typed_state)))])]"
    by blast
  from T r n have c2: "answer (run typed_state (handleSearch (always (Resolved (ok_response (JStr (str ''Clean the pump filter.'')) (JNum (533 / 10))))) typed_state))
        = field (field (ok_response (JStr (str ''Clean the pump filter.'')) (JNum (533 / 10))) (str ''data'')) (str ''answer'')
      \<and> totalScore (run typed_state (handleSearch (always (Resolved (ok_response (JStr (str ''Clean the pump filter.'')) (JNum (533 / 10))))) typed_state))
        = field (field (ok_response (JStr (str ''Clean the pump filter.'')) (JNum (533 / 10))) (str ''data'')) (str ''total_score'')"
    by blast
  from T r fa ft ne have c3: "render (run typed_state (handleSearch (always (Resolved (ok_response (JStr (str ''Clean the pump filter.'')) (JNum (533 / 10))))) typed_state))
      = Inr \<lparr>input_disabled = False, button_disabled = False,
             button_label = str ''Search'', error_message = None,
             answer_card = Some [TextNode (str ''Clean the pump filter.'')],
             score_badge =
               Some [TextNode (str ''Confidence: ''),
                     (if \<bar>533 / 10 :: rat\<bar> \<ge> 10 ^ 21 then NumberNode (533 / 10)
                      else TextNode (fixed_text (533 / 10))),
                     TextNode (str ''%'')],
             stray = []\<rparr>"
    by blast
  show ?thesis
    using h c1 c2 c3 by (simp add: fa ft f trim_typed query_url_def)
qed

text \<open>
  The score shown is not the score received: 49.96 is shown as \<open>50.0\<close>, as 50 is.
\<close>

theorem displayed_score_counterexample:
  "field (field (ok_response (JStr (str ''Clean the pump filter.'')) (JNum (1249 / 25)))
            (str ''data'')) (str ''total_score'') = JNum (1249 / 25)
   \<and> render (run typed_state (handleSearch
        (always (Resolved (ok_response (JStr (str ''Clean the pump filter.'')) (JNum (1249 / 25)))))
        typed_state))
       = Inr \<lparr>input_disabled = False, button_disabled = False, button_label = str ''Search'',
              error_message = None,
              answer_card = Some [TextNode (str ''Clean the pump filter.'')],
              score_badge = Some [TextNode (str ''Confidence: ''), TextNode (str ''50.0''),
                                  TextNode (str ''%'')],
              stray = []\<rparr>
   \<and> fixed_text 50 = str ''50.0''
   \<and> JNum (1249 / 25) \<noteq> JNum 50"
proof -
  have h: "trim (query typed_state) \<noteq> []"
    by (simp add: trim_typed str_def)
  have q: "query typed_state = [0x20] @ str ''drain'' @ [0x9]"
    by (simp add: typed_state_def initial_state_def)
  have f: "fixed_text (1249 / 25) = str ''50.0''" "fixed_text 50 = str ''50.0''"
    by (simp_all add: fixed_text_def Let_def floor_rat_numeral digits_small digits_big digit_def
        str_def)
  have r: "always (Resolved (ok_response (JStr (str ''Clean the pump filter.'')) (JNum (1249 / 25))))
             query_url (JObj [(str ''query'', JStr (trim (query typed_state)))])
           = Resolved (ok_response (JStr (str ''Clean the pump filter.'')) (JNum (1249 / 25)))"
    by (simp add: always_def)
  have d: "field (ok_response (JStr (str ''Clean the pump filter.'')) (JNum (1249 / 25))) (str ''data'')
           = JObj [(str ''answer'', JStr (str ''Clean the pump filter.'')),
                   (str ''total_score'', JNum (1249 / 25))]"
    by (simp add: ok_response_def)
  have n: "\<not> nullish (ok_response (JStr (str ''Clean the pump filter.'')) (JNum (1249 / 25)))"
    by (simp add: ok_response_def)
  have s: "run typed_state (handleSearch
        (always (Resolved (ok_response (JStr (str ''Clean the pump filter.'')) (JNum (1249 / 25)))))
        typed_state)
      = \<lparr>query = query typed_state, answer = JStr (str ''Clean the pump filter.''),
         totalScore = JNum (1249 / 25), loading = False, error = JNull\<rparr>"
    unfolding run_resolved_ok [where post = "always (Resolved (ok_response (JStr (str ''Clean the pump filter.'')) (JNum (1249 / 25))))", OF h r n, unfolded d, simplified] d
    by (simp add: str_def)
  have ne: "str ''Clean the pump filter.'' \<noteq> []"
    by (simp add: str_def)
  show ?thesis
    unfolding s render_settled_answer [OF h ne] d
    using f by (simp add: str_def)
qed

text \<open>
  C3. Every request \<open>handleSearch\<close> posts carries the trimmed query: the input without
  the white space before and after it, which therefore neither starts nor ends with a
  white-space character. The trimmed string is built before the request leaves.
\<close>

theorem posted_query_is_trimmed:
  "(\<forall>e\<in>set (handleSearch post s).
      is_Post e \<longrightarrow> e = Post query_url (JObj [(str ''query'', JStr (trim (query s)))]))
   \<and> (\<exists>l r. query s = l @ trim (query s) @ r
            \<and> (\<forall>c\<in>set l. is_ws c) \<and> (\<forall>c\<in>set r. is_ws c))
   \<and> (trim (query s) \<noteq> []
        \<longrightarrow> \<not> is_ws (hd (trim (query s))) \<and> \<not> is_ws (last (trim (query s))))"
proof -
  have "e = Post query_url (JObj [(str ''query'', JStr (trim (query s)))])"
    if "e \<in> set (handleSearch post s)" and "is_Post e" for e
  proof (cases "trim (query s) = []")
    case True
    then have "handleSearch post s = [PreventDefault]"
      by (simp add: handleSearch_def)
    with that show ?thesis by simp
  next
    case False
    from that(1) have "e \<in> set [PreventDefault, SetLoading True, SetError JNull, SetAnswer JNull,
        SetTotalScore JNull, Post query_url (JObj [(str ''query'', JStr (trim (query s)))])]
      \<or> e \<in> set (after_await (post query_url (JObj [(str ''query'', JStr (trim (query s)))])))"
      unfolding handleSearch_nonblank [OF False] set_append by blast
    with that(2) show ?thesis
      using after_await_no_Post by auto
  qed
  then show ?thesis
    using trim_decomp [of "query s"] trim_ends [of "query s"] by blast
qed

theorem posted_query_is_trimmed_witness:
  "(\<exists>e\<in>set (handleSearch (always NeverSettles) typed_state).
      is_Post e \<and> e = Post query_url (JObj [(str ''query'', JStr (str ''drain''))]))
   \<and> query typed_state = [0x20] @ str ''drain'' @ [0x9]
   \<and> trim (query typed_state) = str ''drain''"
proof -
  have p: "Post query_url (JObj [(str ''query'', JStr (str ''drain''))])
             \<in> set (handleSearch (always NeverSettles) typed_state)"
    by (simp add: handleSearch_def trim_typed str_def Let_def)
  from posted_query_is_trimmed [of "always NeverSettles" typed_state] p
  show ?thesis
    by (auto simp: trim_typed typed_state_def initial_state_def)
qed

section \<open>Failed requests\<close>

text \<open>
  C4. When the request is rejected, the \<open>error\<close> state is the \<open>detail\<close> property of the error
  response's body if that property is truthy; otherwise it is the fixed message for an
  axios error, and the other fixed message for anything else thrown. The answer and the
  score stay \<open>null\<close>. The page then shows the error block: after the cross mark, the
  error as React renders it as a child, which is its text when it is a string (as the
  two fixed messages are), no text for \<open>true\<close>, the elements of an array, and a failed
  render for an object.
\<close>

theorem failed_request_error_message:
  assumes "trim (query s) \<noteq> []"
    and "post query_url (JObj [(str ''query'', JStr (trim (query s)))]) = Rejected err"
  shows "error (run s (handleSearch post s)) =
           (if isAxiosError err
            then (if truthy (optProp (optProp (response err) (str ''data'')) (str ''detail''))
                  then optProp (optProp (response err) (str ''data'')) (str ''detail'')
                  else msg_search_error)
            else msg_unexpected)
       \<and> answer (run s (handleSearch post s)) = JNull
       \<and> totalScore (run s (handleSearch post s)) = JNull
       \<and> render (run s (handleSearch post s))
           = (case react_child (error (run s (handleSearch post s))) of
                Inl x \<Rightarrow> Inl x
              | Inr cs \<Rightarrow>
                  Inr \<lparr>input_disabled = False, button_disabled = False,
                       button_label = str ''Search'',
                       error_message = Some (TextNode [0x274C, 0x20] # cs),
                       answer_card = None, score_badge = None, stray = []\<rparr>)
       \<and> (\<forall>m. error (run s (handleSearch post s)) = JStr m
            \<longrightarrow> m \<noteq> []
              \<and> render (run s (handleSearch post s))
                  = Inr \<lparr>input_disabled = False, button_disabled = False,
                         button_label = str ''Search'',
                         error_message = Some [TextNode [0x274C, 0x20], TextNode m],
                         answer_card = None, score_badge = None, stray = []\<rparr>)
       \<and> (\<exists>m. msg_search_error = JStr m) \<and> (\<exists>m. msg_unexpected = JStr m)"
proof -
  let ?e = "if isAxiosError err
            then js_or (optProp (optProp (response err) (str ''data'')) (str ''detail''))
                       msg_search_error
            else msg_unexpected"
  let ?s' = "run s (handleSearch post s)"
  have st: "?s' = \<lparr>query = query s, answer = JNull, totalScore = JNull, loading = False,
                   error = ?e\<rparr>"
    by (rule run_rejected [where post = post, OF assms])
  have t: "truthy ?e"
    by (rule truthy_settled_error)
  have e: "error ?s' = ?e"
    by (simp add: st)
  have shown: "render ?s'
           = (case react_child (error ?s') of
                Inl x \<Rightarrow> Inl x
              | Inr cs \<Rightarrow>
                  Inr \<lparr>input_disabled = False, button_disabled = False,
                       button_label = str ''Search'',
                       error_message = Some (TextNode [0x274C, 0x20] # cs),
                       answer_card = None, score_badge = None, stray = []\<rparr>)"
    unfolding e unfolding st by (rule render_settled_error [OF assms(1) t])
  have shown_text: "m \<noteq> []
              \<and> render ?s'
                  = Inr \<lparr>input_disabled = False, button_disabled = False,
                         button_label = str ''Search'',
                         error_message = Some [TextNode [0x274C, 0x20], TextNode m],
                         answer_card = None, score_badge = None, stray = []\<rparr>"
    if m: "error ?s' = JStr m" for m
  proof -
    have "truthy (JStr m)"
      using t e m by simp
    then have ne: "m \<noteq> []"
      by simp
    show ?thesis
      using ne by (simp add: shown m)
  qed
  have fixed: "(\<exists>m. msg_search_error = JStr m) \<and> (\<exists>m. msg_unexpected = JStr m)"
    by (simp add: msg_search_error_def msg_unexpected_def)
  have state: "error ?s' =
           (if isAxiosError err
            then (if truthy (optProp (optProp (response err) (str ''data'')) (str ''detail''))
                  then optProp (optProp (response err) (str ''data'')) (str ''detail'')
                  else msg_search_error)
            else msg_unexpected)
       \<and> answer ?s' = JNull \<and> totalScore ?s' = JNull"
    by (simp add: st js_or_def)
  show ?thesis
    using state shown shown_text fixed by blast
qed

theorem failed_request_error_message_witness:
  "trim (query typed_state) \<noteq> []
   \<and> error (run typed_state (handleSearch (always (Rejected (AxiosError (error_response (JStr (str ''Error querying Pinecone'')))))) typed_state))
       = JStr (str ''Error querying Pinecone'')
   \<and> render (run typed_state (handleSearch (always (Rejected (AxiosError (error_response (JStr (str ''Error querying Pinecone'')))))) typed_state))
       = Inr \<lparr>input_disabled = False, button_disabled = False, button_label = str ''Search'',
              error_message = Some [TextNode [0x274C, 0x20],
                                    TextNode (str ''Error querying Pinecone'')],
              answer_card = None, score_badge = None, stray = []\<rparr>
   \<and> error (run typed_state (handleSearch (always (Rejected (AxiosError JUndefined))) typed_state))
       = JStr (str ''An error occurred while searching'')
   \<and> error (run typed_state (handleSearch (always (Rejected TypeError)) typed_state))
       = JStr (str ''An unexpected error occurred'')
   \<and> render (run typed_state (handleSearch (always (Rejected (AxiosError (error_response (JArr [JObj [(str ''msg'', JStr (str ''field required''))]]))))) typed_state))
       = Inl InvalidChild"
proof -
  have h: "trim (query typed_state) \<noteq> []"
    by (simp add: trim_typed str_def)
  have r: "always (Rejected e) query_url (JObj [(str ''query'', JStr (trim (query typed_state)))])
           = Rejected e" for e
    by (simp add: always_def)
  note T1 = failed_request_error_message
    [where post = "always (Rejected (AxiosError (error_response (JStr (str ''Error querying Pinecone'')))))" and err = "AxiosError (error_response (JStr (str ''Error querying Pinecone'')))", OF h r]
  note T2 = failed_request_error_message
    [where post = "always (Rejected (AxiosError JUndefined))" and err = "AxiosError JUndefined",
     OF h r]
  note T3 = failed_request_error_message
    [where post = "always (Rejected TypeError)" and err = TypeError, OF h r]
  note T4 = failed_request_error_message
    [where post = "always (Rejected (AxiosError (error_response (JArr [JObj [(str ''msg'', JStr (str ''field required''))]]))))" and err = "AxiosError (error_response (JArr [JObj [(str ''msg'', JStr (str ''field required''))]]))", OF h r]
  have d1: "optProp (optProp (response (AxiosError (error_response (JStr (str ''Error querying Pinecone''))))) (str ''data'')) (str ''detail'')
            = JStr (str ''Error querying Pinecone'')"
    by (simp add: optProp_def error_response_def str_def)
  have ne1: "str ''Error querying Pinecone'' \<noteq> []"
    by (simp add: str_def)
  have d4: "optProp (optProp (response (AxiosError (error_response (JArr [JObj [(str ''msg'', JStr (str ''field required''))]])))) (str ''data'')) (str ''detail'')
            = JArr [JObj [(str ''msg'', JStr (str ''field required''))]]"
    by (simp add: optProp_def error_response_def str_def)
  have e1: "error (run typed_state (handleSearch (always (Rejected (AxiosError (error_response (JStr (str ''Error querying Pinecone'')))))) typed_state))
            = JStr (str ''Error querying Pinecone'')"
    using T1 unfolding d1 by (simp add: ne1)
  from T1 e1 have v1: "render (run typed_state (handleSearch (always (Rejected (AxiosError (error_response (JStr (str ''Error querying Pinecone'')))))) typed_state))
       = Inr \<lparr>input_disabled = False, button_disabled = False, button_label = str ''Search'',
              error_message = Some [TextNode [0x274C, 0x20],
                                    TextNode (str ''Error querying Pinecone'')],
              answer_card = None, score_badge = None, stray = []\<rparr>"
    by blast
  have e2: "error (run typed_state (handleSearch (always (Rejected (AxiosError JUndefined))) typed_state))
       = JStr (str ''An error occurred while searching'')"
    using T2 by (simp add: optProp_def msg_search_error_def)
  have e3: "error (run typed_state (handleSearch (always (Rejected TypeError)) typed_state))
       = JStr (str ''An unexpected error occurred'')"
    using T3 by (simp add: msg_unexpected_def)
  have e4: "error (run typed_state (handleSearch (always (Rejected (AxiosError (error_response (JArr [JObj [(str ''msg'', JStr (str ''field required''))]]))))) typed_state))
            = JArr [JObj [(str ''msg'', JStr (str ''field required''))]]"
    using T4 unfolding d4 by simp
  have v4: "render (run typed_state (handleSearch (always (Rejected (AxiosError (error_response (JArr [JObj [(str ''msg'', JStr (str ''field required''))]]))))) typed_state))
       = Inl InvalidChild"
    using T4 unfolding e4 by simp
  show ?thesis
    using h e1 v1 e2 e3 v4 by blast
qed

text \<open>
  A \<open>detail\<close> that is present but empty is not shown: the fixed message takes its
  place.
\<close>

theorem empty_detail_counterexample:
  "field (field (error_response (JStr [])) (str ''data'')) (str ''detail'') = JStr []
   \<and> error (run typed_state (handleSearch
        (always (Rejected (AxiosError (error_response (JStr []))))) typed_state))
       = JStr (str ''An error occurred while searching'')
   \<and> JStr (str ''An error occurred while searching'') \<noteq> JStr []
   \<and> render (run typed_state (handleSearch
        (always (Rejected (AxiosError (error_response (JStr []))))) typed_state))
       = Inr \<lparr>input_disabled = False, button_disabled = False, button_label = str ''Search'',
              error_message = Some [TextNode [0x274C, 0x20],
                                    TextNode (str ''An error occurred while searching'')],
              answer_card = None, score_badge = None, stray = []\<rparr>"
proof -
  have h: "trim (query typed_state) \<noteq> []"
    by (simp add: trim_typed str_def)
  have r: "always (Rejected (AxiosError (error_response (JStr [])))) query_url
             (JObj [(str ''query'', JStr (trim (query typed_state)))])
           = Rejected (AxiosError (error_response (JStr [])))"
    by (simp add: always_def)
  have e: "(if isAxiosError (AxiosError (error_response (JStr [])))
            then js_or (optProp (optProp (response (AxiosError (error_response (JStr []))))
                                   (str ''data'')) (str ''detail''))
                       msg_search_error
            else msg_unexpected) = JStr (str ''An error occurred while searching'')"
    by (simp add: js_or_def optProp_def error_response_def msg_search_error_def str_def)
  have s: "run typed_state (handleSearch
        (always (Rejected (AxiosError (error_response (JStr []))))) typed_state)
      = \<lparr>query = query typed_state, answer = JNull, totalScore = JNull, loading = False,
         error = JStr (str ''An error occurred while searching'')\<rparr>"
    using run_rejected
      [where post = "always (Rejected (AxiosError (error_response (JStr []))))", OF h r]
    unfolding e .
  have t: "truthy (JStr (str ''An error occurred while searching''))"
    by (simp add: str_def)
  have m: "react_child (JStr (str ''An error occurred while searching''))
           = Inr [TextNode (str ''An error occurred while searching'')]"
    by (simp add: str_def)
  show ?thesis
    unfolding s render_settled_error [OF h t] m
    by (simp add: error_response_def str_def)
qed

section \<open>The loading flag and what is shown\<close>

text \<open>
  C8. On a query that is not blank, \<open>loading\<close> is set before the request is posted and the
  page then shows the input and the button disabled; once the request settles, resolved
  or rejected, the last thing \<open>handleSearch\<close> does is to clear \<open>loading\<close>, and no further
  request follows. While the promise stays pending, \<open>loading\<close> stays set. Whenever
  \<open>loading\<close> is set, the rendered input and button are disabled.
\<close>

theorem loading_flag:
  assumes "trim (query s) \<noteq> []"
  shows "handleSearch post s =
           [PreventDefault, SetLoading True, SetError JNull, SetAnswer JNull, SetTotalScore JNull,
            Post query_url (JObj [(str ''query'', JStr (trim (query s)))])]
           @ after_await (post query_url (JObj [(str ''query'', JStr (trim (query s)))]))
       \<and> loading (run s [PreventDefault, SetLoading True, SetError JNull, SetAnswer JNull,
                          SetTotalScore JNull])
       \<and> (\<exists>v. render (run s [PreventDefault, SetLoading True, SetError JNull, SetAnswer JNull,
                               SetTotalScore JNull]) = Inr v
              \<and> input_disabled v \<and> button_disabled v)
       \<and> (\<forall>e\<in>set (after_await (post query_url (JObj [(str ''query'', JStr (trim (query s)))]))).
             \<not> is_Post e)
       \<and> (post query_url (JObj [(str ''query'', JStr (trim (query s)))]) \<noteq> NeverSettles
            \<longrightarrow> last (handleSearch post s) = SetLoading False
              \<and> \<not> loading (run s (handleSearch post s)))
       \<and> (post query_url (JObj [(str ''query'', JStr (trim (query s)))]) = NeverSettles
            \<longrightarrow> loading (run s (handleSearch post s)))
       \<and> (\<forall>s' v. loading s' \<and> render s' = Inr v \<longrightarrow> input_disabled v \<and> button_disabled v)"
proof -
  let ?out = "post query_url (JObj [(str ''query'', JStr (trim (query s)))])"
  note hs = handleSearch_nonblank [OF assms, of post]
  have l: "last (handleSearch post s) = SetLoading False" if "?out \<noteq> NeverSettles"
    using after_await_last [OF that] unfolding hs by (simp del: append.simps)
  have f: "\<not> loading (run s (handleSearch post s))" if "?out \<noteq> NeverSettles"
    unfolding hs run_append by (rule run_after_await_loading [OF that])
  have pending: "loading (run s (handleSearch post s))" if "?out = NeverSettles"
    using that by (simp add: run_handleSearch [OF assms] after_await_def run_Nil)
  show ?thesis
    using hs l f pending after_await_no_Post render_loading
    by (simp add: run_prefix render_in_flight) blast
qed

theorem loading_flag_witness:
  "trim (query typed_state) \<noteq> []
   \<and> last (handleSearch (always (Rejected (AxiosError JUndefined))) typed_state) = SetLoading False
   \<and> \<not> loading (run typed_state (handleSearch (always (Rejected (AxiosError JUndefined))) typed_state))
   \<and> \<not> loading (run typed_state (handleSearch
          (always (Resolved (ok_response (JStr (str ''Clean the pump filter.'')) (JNum 50)))) typed_state))
   \<and> loading (run typed_state (handleSearch (always NeverSettles) typed_state))"
proof -
  have h: "trim (query typed_state) \<noteq> []"
    by (simp add: trim_typed str_def)
  have n: "always (Rejected e) u b \<noteq> NeverSettles" "always (Resolved r) u b \<noteq> NeverSettles"
    "always NeverSettles u b = NeverSettles" for e r u b
    by (simp_all add: always_def)
  show ?thesis
    using h n
      loading_flag [OF h, of "always (Rejected (AxiosError JUndefined))"]
      loading_flag [OF h, of "always (Resolved (ok_response (JStr (str ''Clean the pump filter.'')) (JNum 50)))"]
      loading_flag [OF h, of "always NeverSettles"]
    by blast
qed

text \<open>
  C9. On a query that is not blank, \<open>error\<close>, \<open>answer\<close> and \<open>totalScore\<close> are reset to
  \<open>null\<close> before the request is posted, whatever they were. Afterwards the error or the
  answer is \<open>null\<close>: a \<open>try\<close> block that completes sets no error, and a rejected request
  or an exception in the \<open>try\<close> block leaves answer and score \<open>null\<close>. So the page never
  shows an error message together with an answer.
\<close>

theorem error_answer_exclusive:
  assumes "trim (query s) \<noteq> []"
  shows "(\<exists>rest. handleSearch post s =
            [PreventDefault, SetLoading True, SetError JNull, SetAnswer JNull, SetTotalScore JNull]
            @ Post query_url (JObj [(str ''query'', JStr (trim (query s)))]) # rest)
       \<and> error (run s [PreventDefault, SetLoading True, SetError JNull, SetAnswer JNull,
                        SetTotalScore JNull]) = JNull
       \<and> answer (run s [PreventDefault, SetLoading True, SetError JNull, SetAnswer JNull,
                         SetTotalScore JNull]) = JNull
       \<and> totalScore (run s [PreventDefault, SetLoading True, SetError JNull, SetAnswer JNull,
                             SetTotalScore JNull]) = JNull
       \<and> (error (run s (handleSearch post s)) = JNull
            \<or> answer (run s (handleSearch post s)) = JNull)
       \<and> (\<forall>v. render (run s (handleSearch post s)) = Inr v
              \<longrightarrow> error_message v = None \<or> answer_card v = None)
       \<and> (\<forall>resp effs. post query_url (JObj [(str ''query'', JStr (trim (query s)))]) = Resolved resp
                       \<and> try_body resp = (effs, None)
              \<longrightarrow> error (run s (handleSearch post s)) = JNull)
       \<and> ((\<exists>err. post query_url (JObj [(str ''query'', JStr (trim (query s)))]) = Rejected err)
            \<or> (\<exists>resp effs err.
                  post query_url (JObj [(str ''query'', JStr (trim (query s)))]) = Resolved resp
                  \<and> try_body resp = (effs, Some err))
            \<longrightarrow> answer (run s (handleSearch post s)) = JNull
              \<and> totalScore (run s (handleSearch post s)) = JNull)"
proof -
  let ?out = "post query_url (JObj [(str ''query'', JStr (trim (query s)))])"
  let ?s' = "run s (handleSearch post s)"
  note r = run_handleSearch [OF assms, of post]
  have pre: "\<exists>rest. handleSearch post s =
            [PreventDefault, SetLoading True, SetError JNull, SetAnswer JNull, SetTotalScore JNull]
            @ Post query_url (JObj [(str ''query'', JStr (trim (query s)))]) # rest"
    by (simp add: handleSearch_nonblank [OF assms])
  have succ: "error ?s' = JNull" if "?out = Resolved resp" "try_body resp = (effs, None)" for resp effs
    using that try_body_cases [of resp]
    by (auto simp: r after_await_def run_Nil run_Cons)
  have fail1: "answer ?s' = JNull \<and> totalScore ?s' = JNull" if "?out = Rejected err" for err
    using that by (simp add: r after_await_Rejected run_Nil run_Cons)
  have fail2: "answer ?s' = JNull \<and> totalScore ?s' = JNull"
    if "?out = Resolved resp" "try_body resp = (effs, Some err)" for resp effs err
    using that try_body_cases [of resp]
    by (auto simp: r after_await_def catch_block_def run_Nil run_Cons)
  have excl: "error ?s' = JNull \<or> answer ?s' = JNull"
  proof (cases ?out)
    case (Resolved resp)
    then show ?thesis
      using succ [OF Resolved] fail2 [OF Resolved] by (cases "try_body resp") (metis option.exhaust)
  next
    case (Rejected err)
    then show ?thesis using fail1 by blast
  next
    case NeverSettles
    then show ?thesis by (simp add: r after_await_def run_Nil)
  qed
  have shown: "\<forall>v. render ?s' = Inr v \<longrightarrow> error_message v = None \<or> answer_card v = None"
    using render_exclusive [OF excl] by blast
  show ?thesis
    using pre excl shown succ fail1 fail2
    by (simp add: run_prefix) blast
qed

theorem error_answer_exclusive_witness:
  "trim (query (typed_state\<lparr>answer := JStr (str ''An earlier answer'')\<rparr>)) \<noteq> []
   \<and> answer (run (typed_state\<lparr>answer := JStr (str ''An earlier answer'')\<rparr>)
        (handleSearch (always (Rejected (AxiosError JUndefined)))
           (typed_state\<lparr>answer := JStr (str ''An earlier answer'')\<rparr>))) = JNull
   \<and> error (run (typed_state\<lparr>answer := JStr (str ''An earlier answer'')\<rparr>)
        (handleSearch (always (Rejected (AxiosError JUndefined)))
           (typed_state\<lparr>answer := JStr (str ''An earlier answer'')\<rparr>))) \<noteq> JNull"
proof -
  have h: "trim (query (typed_state\<lparr>answer := JStr (str ''An earlier answer'')\<rparr>)) \<noteq> []"
    using trim_typed by (simp add: str_def)
  have e: "error (run (typed_state\<lparr>answer := JStr (str ''An earlier answer'')\<rparr>)
        (handleSearch (always (Rejected (AxiosError JUndefined)))
           (typed_state\<lparr>answer := JStr (str ''An earlier answer'')\<rparr>))) \<noteq> JNull"
    by (simp add: run_handleSearch [OF h] always_def after_await_Rejected run_Nil run_Cons
        js_or_def optProp_def msg_search_error_def)
  show ?thesis
    using h e error_answer_exclusive [OF h, of "always (Rejected (AxiosError JUndefined))"]
    by blast
qed

text \<open>
  C10. When the request resolves with a body whose \<open>answer\<close> is \<open>null\<close> or the empty
  string, the state keeps the answer and the score as they came and no error, and the
  page shows neither the error message nor the answer card nor the score badge.
\<close>

theorem falsy_answer_renders_nothing:
  assumes "trim (query s) \<noteq> []"
    and "post query_url (JObj [(str ''query'', JStr (trim (query s)))]) = Resolved resp"
    and "\<not> nullish resp" and "\<not> nullish (field resp (str ''data''))"
    and "field (field resp (str ''data'')) (str ''answer'') = JNull
         \<or> field (field resp (str ''data'')) (str ''answer'') = JStr []"
  shows "answer (run s (handleSearch post s)) = field (field resp (str ''data'')) (str ''answer'')
       \<and> totalScore (run s (handleSearch post s))
           = field (field resp (str ''data'')) (str ''total_score'')
       \<and> error (run s (handleSearch post s)) = JNull
       \<and> render (run s (handleSearch post s))
           = Inr \<lparr>input_disabled = False, button_disabled = False, button_label = str ''Search'',
                  error_message = None, answer_card = None, score_badge = None, stray = []\<rparr>"
proof -
  have "run s (handleSearch post s)
        = \<lparr>query = query s, answer = field (field resp (str ''data'')) (str ''answer''),
           totalScore = field (field resp (str ''data'')) (str ''total_score''),
           loading = False, error = JNull\<rparr>"
    using assms(1-4)
    by (simp add: run_handleSearch after_await_Resolved_ok run_Nil run_Cons)
  then show ?thesis
    using assms(1,5) by (auto simp: render_def)
qed

theorem falsy_answer_renders_nothing_witness:
  "trim (query typed_state) \<noteq> []
   \<and> totalScore (run typed_state (handleSearch (always (Resolved (ok_response JNull (JNum 50)))) typed_state))
       = JNum 50
   \<and> render (run typed_state (handleSearch (always (Resolved (ok_response JNull (JNum 50)))) typed_state))
       = Inr \<lparr>input_disabled = False, button_disabled = False, button_label = str ''Search'',
              error_message = None, answer_card = None, score_badge = None, stray = []\<rparr>
   \<and> render (run typed_state (handleSearch (always (Resolved (ok_response (JStr []) (JNum 50)))) typed_state))
       = Inr \<lparr>input_disabled = False, button_disabled = False, button_label = str ''Search'',
              error_message = None, answer_card = None, score_badge = None, stray = []\<rparr>"
proof -
  have h: "trim (query typed_state) \<noteq> []"
    by (simp add: trim_typed str_def)
  show ?thesis
    using h
      falsy_answer_renders_nothing [where s = typed_state
        and post = "always (Resolved (ok_response JNull (JNum 50)))"
        and resp = "ok_response JNull (JNum 50)"]
      falsy_answer_renders_nothing [where s = typed_state
        and post = "always (Resolved (ok_response (JStr []) (JNum 50)))"
        and resp = "ok_response (JStr []) (JNum 50)"]
    by (simp add: always_def ok_response_def str_def)
qed

section \<open>The confidence gate\<close>

lemma score_matches_nonempty:
  "ms \<noteq> [] \<Longrightarrow> score_matches ms = Some (sum_list (map score ms) / of_nat (length ms) * 100)"
  by (simp add: score_matches_def mean_def divide_checked_def)

lemma score_matches_total: "\<exists>sc. score_matches ms = Some sc"
  by (cases "ms = []") (simp_all add: score_matches_nonempty, simp add: score_matches_def)

lemma handle_found:
  assumes "trim q \<noteq> []" and "embed cl (trim q) = Some v"
    and "search cl v (top_k cfg) = Some ms" and "ms \<noteq> []"
  shows "handle cfg cl q =
     (let sc = sum_list (map score ms) / of_nat (length ms) * 100;
          prompt = build_prompt cfg (assemble (delimiter cfg) ms) q
      in if sc < score_threshold_percent cfg
         then ([Embed (trim q), Search v (top_k cfg)],
               Inr \<lparr>answer_text = FALLBACK_TEXT, total_score = sc\<rparr>)
         else ([Embed (trim q), Search v (top_k cfg), Complete prompt],
               (case complete cl prompt of
                  None \<Rightarrow> Inl UpstreamGenerationError
                | Some a \<Rightarrow> Inr \<lparr>answer_text = a, total_score = sc\<rparr>)))"
  using assms
  by (simp add: handle_def Let_def score_matches_nonempty split: option.splits)

lemma handle_empty:
  assumes "trim q \<noteq> []" and "embed cl (trim q) = Some v"
    and "search cl v (top_k cfg) = Some []"
  shows "handle cfg cl q =
     ([Embed (trim q), Search v (top_k cfg)], Inr \<lparr>answer_text = FALLBACK_TEXT, total_score = 0\<rparr>)"
  using assms by (simp add: handle_def Let_def)

lemma handle_blank: "trim q = [] \<Longrightarrow> handle cfg cl q = ([], Inl InvalidInputError)"
  by (simp add: handle_def)

lemma handle_no_division_by_zero: "snd (handle cfg cl q) \<noteq> Inl DivisionByZero"
proof -
  have n: "score_matches ms = None \<longleftrightarrow> False" for ms
    using score_matches_total [of ms] by auto
  show ?thesis
    by (auto simp: handle_def Let_def n split: option.splits)
qed

text \<open>
  C5. For a result set that is not empty, the confidence score is the mean of the match
  scores times 100, and the generation service is called exactly when that score is at
  least the threshold; a score equal to the threshold of 25 is on the generation side.
  Below the threshold the result is the fallback answer.
\<close>

theorem generation_iff_gate_passes:
  assumes "trim q \<noteq> []" and "embed cl (trim q) = Some v"
    and "search cl v (top_k cfg) = Some ms" and "ms \<noteq> []"
  shows "score_matches ms = Some (sum_list (map score ms) / of_nat (length ms) * 100)
       \<and> ((\<exists>p. Complete p \<in> set (fst (handle cfg cl q)))
            \<longleftrightarrow> passes (sum_list (map score ms) / of_nat (length ms) * 100)
                        (score_threshold_percent cfg))
       \<and> (snd (handle cfg cl q)
             = Inr \<lparr>answer_text = FALLBACK_TEXT,
                    total_score = sum_list (map score ms) / of_nat (length ms) * 100\<rparr>
            \<longleftrightarrow> \<not> passes (sum_list (map score ms) / of_nat (length ms) * 100)
                          (score_threshold_percent cfg)
                \<or> complete cl (build_prompt cfg (assemble (delimiter cfg) ms) q) = Some FALLBACK_TEXT)
       \<and> (sum_list (map score ms) / of_nat (length ms) * 100 = 25
            \<and> score_threshold_percent cfg = 25
            \<longrightarrow> Complete (build_prompt cfg (assemble (delimiter cfg) ms) q)
                  \<in> set (fst (handle cfg cl q)))"
  unfolding handle_found [OF assms] score_matches_nonempty [OF assms(4)]
  by (auto simp: Let_def passes_def split: option.splits)

theorem generation_iff_gate_passes_witness:
  "trim (str ''drain'') \<noteq> []
   \<and> score_matches [match_scored (1/4), match_scored (1/4), match_scored (1/4)] = Some 25
   \<and> score_threshold_percent default_config = 25
   \<and> handle default_config
        (stub_clients [match_scored (1/4), match_scored (1/4), match_scored (1/4)]) (str ''drain'')
      = ([Embed (str ''drain''), Search [0, 1] 3,
          Complete (build_prompt default_config
             (assemble (delimiter default_config)
                [match_scored (1/4), match_scored (1/4), match_scored (1/4)]) (str ''drain''))],
         Inr \<lparr>answer_text = str ''Clean the pump filter.'', total_score = 25\<rparr>)"
proof -
  have t: "trim (str ''drain'') = str ''drain''"
    by (simp add: trim_def is_ws_def str_def)
  have h: "trim (str ''drain'') \<noteq> []"
    by (simp add: t) (simp add: str_def)
  have e: "embed (stub_clients ms) (trim (str ''drain'')) = Some [0, 1]" for ms
    by (simp add: stub_clients_def)
  have s: "search (stub_clients [match_scored (1/4), match_scored (1/4), match_scored (1/4)])
             [0, 1] (top_k default_config)
           = Some [match_scored (1/4), match_scored (1/4), match_scored (1/4)]"
    by (simp add: stub_clients_def default_config_def)
  have n: "[match_scored (1/4), match_scored (1/4), match_scored (1/4)] \<noteq> []"
    by simp
  have g: "Complete (build_prompt default_config
             (assemble (delimiter default_config)
                [match_scored (1/4), match_scored (1/4), match_scored (1/4)]) (str ''drain''))
           \<in> set (fst (handle default_config
                (stub_clients [match_scored (1/4), match_scored (1/4), match_scored (1/4)])
                (str ''drain'')))"
    using generation_iff_gate_passes [OF h e s n]
    by (simp add: match_scored_def default_config_def)
  have sc: "score_matches [match_scored (1/4), match_scored (1/4), match_scored (1/4)] = Some 25"
    using generation_iff_gate_passes [OF h e s n] by (simp add: match_scored_def)
  show ?thesis
    using h sc g
    by (simp add: handle_found [OF h e s n] t Let_def) (simp add: match_scored_def default_config_def stub_clients_def)
qed

text \<open>
  C6. When the search returns no match, the confidence score is 0 by the check for the
  empty set, while the unchecked mean of no scores would divide by zero; the score is
  defined for every result set and \<open>handle\<close> never ends in a division by zero. The gate
  does not pass at the default threshold, the generation service is not called, and the
  result is the fallback answer with \<open>total_score\<close> 0.
\<close>

theorem empty_result_scores_zero:
  assumes "trim q \<noteq> []" and "embed cl (trim q) = Some v"
    and "search cl v (top_k cfg) = Some []"
  shows "score_matches [] = Some 0
       \<and> mean [] = None
       \<and> (\<forall>ms. \<exists>sc. score_matches ms = Some sc)
       \<and> (\<forall>cfg' cl' q'. snd (handle cfg' cl' q') \<noteq> Inl DivisionByZero)
       \<and> \<not> passes 0 (score_threshold_percent default_config)
       \<and> (\<forall>p. Complete p \<notin> set (fst (handle cfg cl q)))
       \<and> snd (handle cfg cl q) = Inr \<lparr>answer_text = FALLBACK_TEXT, total_score = 0\<rparr>"
  using score_matches_total handle_no_division_by_zero
  by (simp add: handle_empty [OF assms] score_matches_def mean_def divide_checked_def
      passes_def default_config_def)

theorem empty_result_scores_zero_witness:
  "trim (str ''drain'') \<noteq> []
   \<and> handle default_config (stub_clients []) (str ''drain'')
      = ([Embed (str ''drain''), Search [0, 1] 3],
         Inr \<lparr>answer_text = str ''I could not find enough information about this issue in the dataset.'',
               total_score = 0\<rparr>)"
proof -
  have t: "trim (str ''drain'') = str ''drain''"
    by (simp add: trim_def is_ws_def str_def)
  have h: "trim (str ''drain'') \<noteq> []"
    by (simp add: t) (simp add: str_def)
  have e: "embed (stub_clients []) (trim (str ''drain'')) = Some [0, 1]"
    by (simp add: stub_clients_def)
  have s: "search (stub_clients []) [0, 1] (top_k default_config) = Some []"
    by (simp add: stub_clients_def)
  have c: "fst (handle default_config (stub_clients []) (str ''drain''))
           = [Embed (str ''drain''), Search [0, 1] 3]"
    unfolding handle_empty [OF h e s] by (simp add: t default_config_def)
  show ?thesis
    using h c empty_result_scores_zero [OF h e s]
    by (simp add: prod_eq_iff FALLBACK_TEXT_def)
qed

text \<open>
  C7. On the fallback path (no match, or a score below the threshold) the result carries
  the fixed fallback answer together with the computed confidence score, and the
  response body reports that score as a number.
\<close>

theorem fallback_reports_score:
  assumes "trim q \<noteq> []" and "embed cl (trim q) = Some v"
    and "search cl v (top_k cfg) = Some ms"
    and "ms = [] \<or> (\<exists>sc. score_matches ms = Some sc \<and> sc < score_threshold_percent cfg)"
  shows "\<exists>sc. score_matches ms = Some sc
            \<and> snd (handle cfg cl q) = Inr \<lparr>answer_text = FALLBACK_TEXT, total_score = sc\<rparr>
            \<and> field (response_body \<lparr>answer_text = FALLBACK_TEXT, total_score = sc\<rparr>)
                    (str ''answer'')
                = JStr (str ''I could not find enough information about this issue in the dataset.'')
            \<and> field (response_body \<lparr>answer_text = FALLBACK_TEXT, total_score = sc\<rparr>)
                    (str ''total_score'') = JNum sc"
proof (cases "ms = []")
  case True
  with assms(3) have s: "search cl v (top_k cfg) = Some []" by simp
  show ?thesis
    using True
    by (simp add: handle_empty [OF assms(1,2) s] score_matches_def response_body_def
        FALLBACK_TEXT_def str_def)
next
  case False
  with assms(4) have lt: "sum_list (map score ms) / of_nat (length ms) * 100 < score_threshold_percent cfg"
    by (simp add: score_matches_nonempty)
  show ?thesis
    using lt
    by (simp add: handle_found [OF assms(1-3) False] score_matches_nonempty [OF False] Let_def
        response_body_def FALLBACK_TEXT_def str_def)
qed

theorem fallback_reports_score_witness:
  "trim (str ''drain'') \<noteq> []
   \<and> score_matches [match_scored (1/5), match_scored (3/20), match_scored (1/10)] = Some 15
   \<and> snd (handle default_config
        (stub_clients [match_scored (1/5), match_scored (3/20), match_scored (1/10)]) (str ''drain''))
      = Inr \<lparr>answer_text = FALLBACK_TEXT, total_score = 15\<rparr>"
proof -
  have t: "trim (str ''drain'') = str ''drain''"
    by (simp add: trim_def is_ws_def str_def)
  have h: "trim (str ''drain'') \<noteq> []"
    by (simp add: t) (simp add: str_def)
  have e: "embed (stub_clients ms) (trim (str ''drain'')) = Some [0, 1]" for ms
    by (simp add: stub_clients_def)
  have s: "search (stub_clients [match_scored (1/5), match_scored (3/20), match_scored (1/10)])
             [0, 1] (top_k default_config)
           = Some [match_scored (1/5), match_scored (3/20), match_scored (1/10)]"
    by (simp add: stub_clients_def default_config_def)
  have sc: "score_matches [match_scored (1/5), match_scored (3/20), match_scored (1/10)] = Some 15"
    by (simp add: score_matches_nonempty match_scored_def)
  have lo: "[match_scored (1/5), match_scored (3/20), match_scored (1/10)] = []
      \<or> (\<exists>sc. score_matches [match_scored (1/5), match_scored (3/20), match_scored (1/10)] = Some sc
            \<and> sc < score_threshold_percent default_config)"
    by (simp add: sc default_config_def)
  show ?thesis
    using h sc fallback_reports_score [OF h e s lo] by simp
qed

end
